theory Spec2Isabelle
  imports Main "HOL-Library.Sublist"
begin

section \<open>Strings of the bot\<close>

text \<open>
  A Python \<open>str\<close> is modelled by the list of the bytes of its UTF-8 encoding
  (\<^typ>\<open>string\<close>). Substring tests, concatenation, joining and the removal of
  non-ASCII characters give the same result on the encoding as on the code points.
  The character classes of Python (\<open>str.isspace\<close>, \<open>str.isdigit\<close>, \<open>\s\<close>, \<open>\d\<close>,
  case mapping, matching under \<open>re.I\<close>) are modelled on the ASCII range, where they are
  exact; the tables of Unicode are not part of the model. A property that depends on
  these classes is therefore stated for texts of ASCII characters (or, where whitespace
  alone matters, for texts with no whitespace character beyond ASCII), and says nothing
  about the other texts.
\<close>

definition is_space :: "char \<Rightarrow> bool" where
  \<comment> \<open>\<open>str.isspace\<close> on ASCII: TAB, LF, VT, FF, CR, the separators 0x1C..0x1F, space.\<close>
  "is_space c = (of_char c \<in> {9, 10, 11, 12, 13, 28, 29, 30, 31, 32 :: nat})"

definition is_digit :: "char \<Rightarrow> bool" where
  \<comment> \<open>the ASCII digits: \<open>\d\<close> and \<open>str.isdigit\<close> on ASCII\<close>
  "is_digit c = (48 \<le> (of_char c :: nat) \<and> (of_char c :: nat) \<le> 57)"

definition is_upper :: "char \<Rightarrow> bool" where
  "is_upper c = (65 \<le> (of_char c :: nat) \<and> (of_char c :: nat) \<le> 90)"

definition is_lower :: "char \<Rightarrow> bool" where
  "is_lower c = (97 \<le> (of_char c :: nat) \<and> (of_char c :: nat) \<le> 122)"

definition is_alnum :: "char \<Rightarrow> bool" where
  \<comment> \<open>the class \<open>[A-Za-z0-9]\<close>\<close>
  "is_alnum c = (is_upper c \<or> is_lower c \<or> is_digit c)"

definition lower_char :: "char \<Rightarrow> char" where
  "lower_char c = (if is_upper c then char_of (of_char c + (32 :: nat)) else c)"

definition lower :: "string \<Rightarrow> string" where
  \<comment> \<open>\<open>str.lower()\<close>, for a text of ASCII characters\<close>
  "lower s = map lower_char s"

definition strip :: "string \<Rightarrow> string" where
  \<comment> \<open>\<open>str.strip()\<close>, for a text with no whitespace character beyond ASCII\<close>
  "strip s = rev (dropWhile is_space (rev (dropWhile is_space s)))"

definition isdigit :: "string \<Rightarrow> bool" where
  \<comment> \<open>\<open>str.isdigit()\<close>, for a text of ASCII characters: false on the empty string\<close>
  "isdigit s = (s \<noteq> [] \<and> list_all is_digit s)"

fun join :: "string \<Rightarrow> string list \<Rightarrow> string" where
  \<comment> \<open>\<open>sep.join(xs)\<close>\<close>
  "join sep [] = []"
| "join sep [x] = x"
| "join sep (x # y # ys) = x @ sep @ join sep (y # ys)"

definition or_else :: "'a list option \<Rightarrow> 'a list \<Rightarrow> 'a list" where
  \<comment> \<open>\<open>d.get(k) or dflt\<close> for a string or a list: an absent key and an empty value
      both give the default\<close>
  "or_else v dflt = (case v of None \<Rightarrow> dflt | Some x \<Rightarrow> if x = [] then dflt else x)"

section \<open>Release records\<close>

text \<open>
  The release is the decoded JSON object of the Discogs API. Each field the bot reads
  is optional (\<open>None\<close>: the key is absent) and has the type the API documents.
\<close>

record credit =
  role :: "string option"
  name :: "string option"

record track =
  title :: "string option"
  track_type :: "string option"  \<comment> \<open>the key \<open>type_\<close>\<close>

record artist =
  artist_name :: "string option"

datatype year_value = YInt int | YStr string

record release =
  artists_sort :: "string option"
  artists :: "artist list option"
  release_title :: "string option"
  year :: "year_value option"
  tracklist :: "track list option"
  extraartists :: "credit list option"
  genres :: "string list option"
  styles :: "string list option"

section \<open>Credit Extractor\<close>

fun fromkeys :: "'a list \<Rightarrow> 'a list \<Rightarrow> 'a list" where
  \<comment> \<open>\<open>list(dict.fromkeys(out))\<close>: the keys in insertion order; the first argument is the
      dictionary built so far\<close>
  "fromkeys seen [] = seen"
| "fromkeys seen (x # xs) = (if x \<in> set seen then fromkeys seen xs else fromkeys (seen @ [x]) xs)"

fun collect_names :: "string list \<Rightarrow> credit list \<Rightarrow> string list \<Rightarrow> string list" where
  \<comment> \<open>the loop \<open>for p in extra\<close>; the last argument is \<open>out\<close>\<close>
  "collect_names keywords [] out = out"
| "collect_names keywords (p # ps) out =
     (let role = lower (or_else (role p) []);
          name = or_else (name p) []
      in if list_ex (\<lambda>k. sublist k role) keywords
         then collect_names keywords ps (out @ [name])
         else collect_names keywords ps out)"

definition extract_roles :: "credit list option \<Rightarrow> string list \<Rightarrow> string list" where
  "extract_roles extra keywords =
     (case extra of
        None \<Rightarrow> []
      | Some ps \<Rightarrow> if ps = [] then [] else fromkeys [] (collect_names keywords ps []))"

section \<open>Tag Builder\<close>

function re_sub_non_alnum :: "string \<Rightarrow> string" where
  \<comment> \<open>\<open>re.sub(r"[^A-Za-z0-9]+", "", x)\<close>: every longest run of characters outside
      \<open>[A-Za-z0-9]\<close> is replaced by the empty string\<close>
  "re_sub_non_alnum [] = []"
| "re_sub_non_alnum (c # cs) =
     (if is_alnum c then c # re_sub_non_alnum cs
      else re_sub_non_alnum (dropWhile (\<lambda>d. \<not> is_alnum d) cs))"
  by pat_completeness auto
termination
  by (relation "measure length") (auto simp: length_dropWhile_le less_Suc_eq_le)

definition hashtags :: "release \<Rightarrow> string" where
  "hashtags data =
     (let g = or_else (genres data) [];
          s = or_else (styles data) []
      in join '' '' (map (\<lambda>x. ''#'' @ re_sub_non_alnum x)
                         (filter (\<lambda>x. strip x \<noteq> []) (g @ s))))"

section \<open>Track Selector\<close>

definition imatch :: "string \<Rightarrow> string \<Rightarrow> bool" where
  \<comment> \<open>a literal of a pattern compiled with \<open>re.I\<close> matches at the start of a text of
      ASCII characters\<close>
  "imatch lit s = (length lit \<le> length s \<and> lower (take (length lit) s) = lower lit)"

definition int_of_digits :: "string \<Rightarrow> nat" where
  \<comment> \<open>\<open>int(ds)\<close> for a string of decimal digits\<close>
  "int_of_digits ds = foldl (\<lambda>n c. 10 * n + (of_char c - 48)) 0 ds"

definition match_index_hint :: "string \<Rightarrow> string option" where
  \<comment> \<open>\<open>re.match(r"track\s*:\s*(\d+)", hint, re.I)\<close>: group 1 of the match at the start of
      the hint. Neither \<open>:\<close> nor a digit is whitespace, so the greedy \<open>\s*\<close> never gives
      a character back.\<close>
  "match_index_hint hint =
     (if imatch ''track'' hint then
        (case dropWhile is_space (drop 5 hint) of
           [] \<Rightarrow> None
         | c # r \<Rightarrow>
             if c = CHR '':'' then
               (let ds = takeWhile is_digit (dropWhile is_space r)
                in if ds = [] then None else Some ds)
             else None)
      else None)"

fun name_match :: "string \<Rightarrow> track list \<Rightarrow> string option" where
  \<comment> \<open>the loop \<open>for t in tracks\<close> with \<open>h in t.get("title", "").lower()\<close>\<close>
  "name_match h [] = None"
| "name_match h (t # ts) =
     (if sublist h (lower (case title t of None \<Rightarrow> [] | Some s \<Rightarrow> s))
      then title t
      else name_match h ts)"

definition is_track :: "track \<Rightarrow> bool" where
  \<comment> \<open>\<open>t.get("type_", "track") == "track"\<close>\<close>
  "is_track t = ((case track_type t of None \<Rightarrow> ''track'' | Some s \<Rightarrow> s) = ''track'')"

definition hint_of :: "string \<Rightarrow> string" where
  \<comment> \<open>\<open>user_text.split("|", 1)[1].strip()\<close>, for a text that contains \<open>|\<close>\<close>
  "hint_of user_text = strip (drop 1 (dropWhile (\<lambda>c. c \<noteq> CHR ''|'') user_text))"

definition choose_track :: "release \<Rightarrow> string \<Rightarrow> string option" where
  "choose_track data user_text =
     (if CHR ''|'' \<notin> set user_text then None
      else
        let hint = hint_of user_text;
            tracks = filter is_track (or_else (tracklist data) [])
        in case match_index_hint hint of
             None \<Rightarrow> name_match (lower hint) tracks
           | Some ds \<Rightarrow>
               let idx = int (int_of_digits ds) - 1
               in if 0 \<le> idx \<and> idx < int (length tracks)
                  then title (tracks ! nat idx)
                  else name_match (lower hint) tracks)"

section \<open>Caption Composer\<close>

definition digit_char :: "nat \<Rightarrow> char" where
  "digit_char d = char_of (48 + d)"

fun str_of_nat :: "nat \<Rightarrow> string" where
  "str_of_nat n = (if n < 10 then [digit_char n] else str_of_nat (n div 10) @ [digit_char (n mod 10)])"

declare str_of_nat.simps [simp del]

definition str_of_int :: "int \<Rightarrow> string" where
  \<comment> \<open>\<open>str(i)\<close> for an integer\<close>
  "str_of_int i = (if i < 0 then CHR ''-'' # str_of_nat (nat (- i)) else str_of_nat (nat i))"

definition truthy :: "year_value \<Rightarrow> bool" where
  \<comment> \<open>the truth value of a year: the integer 0 and the empty string are falsy\<close>
  "truthy y = (case y of YInt i \<Rightarrow> i \<noteq> 0 | YStr s \<Rightarrow> s \<noteq> [])"

definition py_str :: "year_value \<Rightarrow> string" where
  \<comment> \<open>\<open>str(y)\<close>\<close>
  "py_str y = (case y of YInt i \<Rightarrow> str_of_int i | YStr s \<Rightarrow> s)"

definition year_text :: "release \<Rightarrow> string" where
  \<comment> \<open>\<open>str(data.get("year") or "").strip()\<close>\<close>
  "year_text data =
     strip (py_str (case year data of
                      None \<Rightarrow> YStr []
                    | Some y \<Rightarrow> if truthy y then y else YStr []))"

definition label_artist :: string where
  "label_artist = [CHR 0xF0, CHR 0x9F, CHR 0x8E, CHR 0xA7] @ '' Artist : ''"

definition label_track :: string where
  "label_track = [CHR 0xF0, CHR 0x9F, CHR 0x8E, CHR 0xB5] @ '' Track Title : ''"

definition label_album :: string where
  "label_album = [CHR 0xF0, CHR 0x9F, CHR 0x92, CHR 0xBF] @ '' Album : ''"

definition label_producer :: string where
  "label_producer = [CHR 0xF0, CHR 0x9F, CHR 0x8E, CHR 0x9A] @ '' Producer : ''"

definition label_engineer :: string where
  "label_engineer = [CHR 0xF0, CHR 0x9F, CHR 0x8E, CHR 0x9B] @ '' Sound Engineer : ''"

definition label_date :: string where
  "label_date = [CHR 0xF0, CHR 0x9F, CHR 0x93, CHR 0x85] @ '' Date : ''"

definition caption_lines :: "release \<Rightarrow> string \<Rightarrow> string list" where
  \<comment> \<open>the list \<open>lines\<close> of \<open>build_caption\<close> when it is joined\<close>
  "caption_lines data user_text =
     (let artist =
            (case artists_sort data of
               None \<Rightarrow> join '', '' (map (\<lambda>a. case artist_name a of None \<Rightarrow> [] | Some n \<Rightarrow> n)
                                        (case artists data of None \<Rightarrow> [] | Some as \<Rightarrow> as))
             | Some s \<Rightarrow>
                 if s = []
                 then join '', '' (map (\<lambda>a. case artist_name a of None \<Rightarrow> [] | Some n \<Rightarrow> n)
                                       (case artists data of None \<Rightarrow> [] | Some as \<Rightarrow> as))
                 else s);
          album = or_else (release_title data) [];
          year = year_text data;
          track = choose_track data user_text;
          producers = extract_roles (extraartists data) [''producer''];
          engineers = extract_roles (extraartists data)
                        [''engineer'', ''mix'', ''record'', ''master'', ''sound''];
          tags = hashtags data
      in [label_artist @ artist]
         @ (case track of None \<Rightarrow> [] | Some t \<Rightarrow> if t = [] then [] else [label_track @ t])
         @ [label_album @ album]
         @ (if producers = [] then [] else [label_producer @ join '', '' producers])
         @ (if engineers = [] then [] else [label_engineer @ join '', '' engineers])
         @ (if year = [] then []
            else [label_date @ year
                  @ (if isdigit year \<and> length year = 4 then '' #'' @ [year ! 2] @ ''0s'' else [])])
         @ (if tags = [] then [] else [tags]))"

definition build_caption :: "release \<Rightarrow> string \<Rightarrow> string" where
  "build_caption data user_text = join [CHR 0x0A] (caption_lines data user_text)"

section \<open>URL Identifier\<close>






section \<open>Notions used in the statements\<close>

definition credit_matches :: "string list \<Rightarrow> credit \<Rightarrow> bool" where
  \<comment> \<open>the lowercased role of the entry contains at least one keyword as a substring\<close>
  "credit_matches keywords p = (\<exists>k \<in> set keywords. sublist k (lower (or_else (role p) [])))"

definition matching_names :: "credit list option \<Rightarrow> string list \<Rightarrow> string list" where
  \<comment> \<open>the names of the matching entries, in encounter order, duplicates included\<close>
  "matching_names extra keywords =
     map (\<lambda>p. or_else (name p) [])
         (filter (credit_matches keywords) (case extra of None \<Rightarrow> [] | Some ps \<Rightarrow> ps))"

definition empty_release :: release where
  \<comment> \<open>the release with no key at all\<close>
  "empty_release =
     \<lparr>artists_sort = None, artists = None, release_title = None, year = None,
      tracklist = None, extraartists = None, genres = None, styles = None\<rparr>"

definition blank :: "string \<Rightarrow> bool" where
  \<comment> \<open>nothing is left of the string after trimming: it has whitespace only\<close>
  "blank x = (\<forall>c \<in> set x. is_space c)"








definition track_entries :: "release \<Rightarrow> track list" where
  \<comment> \<open>the entries of the track listing whose type is \<open>track\<close> or is absent, in their order\<close>
  "track_entries data =
     filter (\<lambda>t. track_type t = None \<or> track_type t = Some ''track'')
            (case tracklist data of None \<Rightarrow> [] | Some ts \<Rightarrow> ts)"

definition title_contains :: "string \<Rightarrow> track \<Rightarrow> bool" where
  \<comment> \<open>the lowercased title of the entry (empty when absent) contains \<open>h\<close> as a substring\<close>
  "title_contains h t = sublist h (lower (case title t of None \<Rightarrow> [] | Some s \<Rightarrow> s))"

definition first_title_containing :: "string \<Rightarrow> track list \<Rightarrow> string option" where
  \<comment> \<open>the title of the first entry, in listing order, whose lowercased title contains \<open>h\<close>\<close>
  "first_title_containing h ts =
     (case find (title_contains h) ts of None \<Rightarrow> None | Some t \<Rightarrow> title t)"

definition three_tracks :: release where
  \<comment> \<open>a listing of three tracks\<close>
  "three_tracks =
     empty_release\<lparr>tracklist := Some [\<lparr>title = Some ''One'', track_type = None\<rparr>,
                                      \<lparr>title = Some ''Two'', track_type = Some ''track''\<rparr>,
                                      \<lparr>title = Some ''Three'', track_type = None\<rparr>]\<rparr>"


definition moonlight :: release where
  \<comment> \<open>a heading followed by three tracks\<close>
  "moonlight =
     empty_release\<lparr>tracklist :=
       Some [\<lparr>title = Some ''Moonlight Suite'', track_type = Some ''heading''\<rparr>,
             \<lparr>title = Some ''Intro'', track_type = None\<rparr>,
             \<lparr>title = Some ''Blue MOONLIGHT'', track_type = Some ''track''\<rparr>,
             \<lparr>title = Some ''Moonlight Again'', track_type = None\<rparr>]\<rparr>"





section \<open>Properties of the Credit Extractor\<close>

lemma collect_names_eq:
  "collect_names keywords ps out =
     out @ map (\<lambda>p. or_else (name p) []) (filter (credit_matches keywords) ps)"
  by (induction ps arbitrary: out) (simp_all add: credit_matches_def list_ex_iff Let_def)

lemma remdups_snoc:
  "remdups (zs @ [x]) = remdups (filter (\<lambda>y. y \<noteq> x) zs) @ [x]"
  by (induction zs) auto

lemma first_kept_Cons:
  "rev (remdups (rev (x # ys))) = x # rev (remdups (rev (filter (\<lambda>y. y \<noteq> x) ys)))"
  by (simp add: remdups_snoc rev_filter)

lemma fromkeys_eq:
  "fromkeys seen xs = seen @ rev (remdups (rev (filter (\<lambda>x. x \<notin> set seen) xs)))"
proof (induction xs arbitrary: seen)
  case Nil
  show ?case by simp
next
  case (Cons x xs)
  show ?case
  proof (cases "x \<in> set seen")
    case True
    then show ?thesis using Cons.IH [of seen] by simp
  next
    case False
    have "filter (\<lambda>y. y \<notin> set (seen @ [x])) xs
            = filter (\<lambda>y. y \<noteq> x) (filter (\<lambda>y. y \<notin> set seen) xs)"
      by (induction xs) auto
    then show ?thesis
      using False Cons.IH [of "seen @ [x]"] by (simp add: first_kept_Cons del: rev.simps)
  qed
qed

text \<open>
  C3. For every sequence of credit entries (absent or not) and every keyword list,
  \<open>extract_roles\<close> returns the names of the entries whose lowercased role contains at
  least one keyword as a substring, in encounter order, with every repetition of a name
  after its first occurrence removed (\<open>rev \<circ> remdups \<circ> rev\<close> keeps the first occurrence of
  each element); the result has no two equal names and holds exactly the matching names.
\<close>

theorem extract_roles_first_occurrences:
  "extract_roles extra keywords = rev (remdups (rev (matching_names extra keywords)))
   \<and> distinct (extract_roles extra keywords)
   \<and> set (extract_roles extra keywords) = set (matching_names extra keywords)"
proof -
  have "extract_roles extra keywords = rev (remdups (rev (matching_names extra keywords)))"
    by (cases extra)
       (simp_all add: extract_roles_def matching_names_def collect_names_eq fromkeys_eq)
  then show ?thesis by simp
qed

theorem extract_roles_first_occurrences_witness:
  "extract_roles
     (Some [\<lparr>role = Some ''Producer'', name = Some ''X''\<rparr>,
            \<lparr>role = Some ''Written-By'', name = Some ''W''\<rparr>,
            \<lparr>role = Some ''Co-producer'', name = Some ''Y''\<rparr>,
            \<lparr>role = Some ''Executive Producer'', name = Some ''X''\<rparr>])
     [''producer'']
   = [''X'', ''Y'']"
proof -
  have "rev (remdups (rev (matching_names
          (Some [\<lparr>role = Some ''Producer'', name = Some ''X''\<rparr>,
                 \<lparr>role = Some ''Written-By'', name = Some ''W''\<rparr>,
                 \<lparr>role = Some ''Co-producer'', name = Some ''Y''\<rparr>,
                 \<lparr>role = Some ''Executive Producer'', name = Some ''X''\<rparr>])
          [''producer''])))
        = [''X'', ''Y'']"
    by code_simp
  then show ?thesis
    using extract_roles_first_occurrences
      [of "Some [\<lparr>role = Some ''Producer'', name = Some ''X''\<rparr>,
                 \<lparr>role = Some ''Written-By'', name = Some ''W''\<rparr>,
                 \<lparr>role = Some ''Co-producer'', name = Some ''Y''\<rparr>,
                 \<lparr>role = Some ''Executive Producer'', name = Some ''X''\<rparr>]"
          "[''producer'']"]
    by simp
qed

section \<open>Properties of the Tag Builder\<close>



lemma dropWhile_Nil_iff: "dropWhile P xs = [] \<longleftrightarrow> (\<forall>x \<in> set xs. P x)"
  by (induction xs) auto

lemma strip_Nil_iff: "strip x = [] \<longleftrightarrow> blank x"
proof -
  have "strip x = [] \<longleftrightarrow> (\<forall>c \<in> set (dropWhile is_space x). is_space c)"
    by (simp add: strip_def dropWhile_Nil_iff)
  also have "\<dots> \<longleftrightarrow> dropWhile is_space x = []"
    using hd_dropWhile [of is_space x]
    by (cases "dropWhile is_space x") (auto dest: set_dropWhileD)
  also have "\<dots> \<longleftrightarrow> blank x"
    by (simp add: dropWhile_Nil_iff blank_def)
  finally show ?thesis .
qed

lemma or_else_Nil: "or_else v [] = (case v of None \<Rightarrow> [] | Some x \<Rightarrow> x)"
  by (simp add: or_else_def split: option.splits)












text \<open>
  C6. The claim that no token of the hashtag string is a bare \<open>#\<close> fails on the code:
  the entry \<open>+\<close> is not blank, so it is kept, and nothing is left of it once the characters
  outside \<open>[A-Za-z0-9]\<close> are removed.
\<close>

theorem hashtags_bare_hash:
  "hashtags (empty_release\<lparr>genres := Some [''+'']\<rparr>) = ''#''"
  by code_simp

section \<open>Properties of the Caption Composer\<close>














text \<open>
  C2. The release with artist \<open>A\<close> (as \<open>artists_sort\<close>, or as the only entry of
  \<open>artists\<close>), title \<open>B\<close>, year 2001, genres \<open>["Soul"]\<close> and no extra-artists, with a user
  text that has no \<open>|\<close>, gives the four lines artist, album, date, tags, joined by single
  newlines with none at the end. The labels are the UTF-8 encodings of U+1F3A7, U+1F4BF
  and U+1F4C5.
\<close>

theorem build_caption_end_to_end:
  "build_caption
     (empty_release\<lparr>artists_sort := Some ''A'', release_title := Some ''B'',
                     year := Some (YInt 2001), genres := Some [''Soul'']\<rparr>)
     ''https://www.discogs.com/release/1''
   = [CHR 0xF0, CHR 0x9F, CHR 0x8E, CHR 0xA7] @ '' Artist : A'' @ [CHR 0x0A]
     @ [CHR 0xF0, CHR 0x9F, CHR 0x92, CHR 0xBF] @ '' Album : B'' @ [CHR 0x0A]
     @ [CHR 0xF0, CHR 0x9F, CHR 0x93, CHR 0x85] @ '' Date : 2001 #00s'' @ [CHR 0x0A]
     @ ''#Soul''
   \<and> build_caption
     (empty_release\<lparr>artists := Some [\<lparr>artist_name = Some ''A''\<rparr>], release_title := Some ''B'',
                     year := Some (YInt 2001), genres := Some [''Soul''],
                     extraartists := Some []\<rparr>)
     ''''
   = [CHR 0xF0, CHR 0x9F, CHR 0x8E, CHR 0xA7] @ '' Artist : A'' @ [CHR 0x0A]
     @ [CHR 0xF0, CHR 0x9F, CHR 0x92, CHR 0xBF] @ '' Album : B'' @ [CHR 0x0A]
     @ [CHR 0xF0, CHR 0x9F, CHR 0x93, CHR 0x85] @ '' Date : 2001 #00s'' @ [CHR 0x0A]
     @ ''#Soul''"
  by code_simp

section \<open>Properties of the Track Selector\<close>






lemma hint_of_split:
  assumes "CHR ''|'' \<notin> set pre"
  shows "hint_of (pre @ ''|'' @ rest) = strip rest"
proof -
  have "dropWhile (\<lambda>c. c \<noteq> CHR ''|'') (pre @ ''|'' @ rest) = ''|'' @ rest"
    using assms by (induction pre) auto
  then show ?thesis by (simp add: hint_of_def)
qed

lemma is_track_iff: "is_track t \<longleftrightarrow> track_type t = None \<or> track_type t = Some ''track''"
  by (cases "track_type t") (simp_all add: is_track_def)

lemma tracks_eq: "filter is_track (or_else (tracklist data) []) = track_entries data"
  by (simp add: track_entries_def or_else_Nil is_track_iff [abs_def])

lemma name_match_find: "name_match h ts = first_title_containing h ts"
  by (induction ts) (simp_all add: first_title_containing_def title_contains_def)

lemma choose_track_split:
  assumes "CHR ''|'' \<notin> set pre"
  shows "choose_track data (pre @ ''|'' @ rest) =
     (case match_index_hint (strip rest) of
        None \<Rightarrow> first_title_containing (lower (strip rest)) (track_entries data)
      | Some ds \<Rightarrow>
          if 1 \<le> int_of_digits ds \<and> int_of_digits ds \<le> length (track_entries data)
          then title (track_entries data ! (int_of_digits ds - 1))
          else first_title_containing (lower (strip rest)) (track_entries data))"
proof -
  have idx: "nat (int n - 1) = n - 1"
    "0 \<le> int n - 1 \<and> int n - 1 < int m \<longleftrightarrow> 1 \<le> n \<and> n \<le> m" for n m :: nat
    by auto
  have bar: "CHR ''|'' \<in> set (pre @ ''|'' @ rest)" by simp
  show ?thesis
    unfolding choose_track_def Let_def hint_of_split [OF assms] tracks_eq name_match_find idx
    using bar by (simp split: option.splits)
qed

lemma choose_track_Cons:
  assumes "CHR ''|'' \<notin> set pre"
  shows "choose_track data (pre @ CHR ''|'' # rest) =
     (case match_index_hint (strip rest) of
        None \<Rightarrow> first_title_containing (lower (strip rest)) (track_entries data)
      | Some ds \<Rightarrow>
          if 1 \<le> int_of_digits ds \<and> int_of_digits ds \<le> length (track_entries data)
          then title (track_entries data ! (int_of_digits ds - 1))
          else first_title_containing (lower (strip rest)) (track_entries data))"
  using choose_track_split [OF assms, of data rest] by simp


lemma first_title_containing_Some:
  "first_title_containing h ts = Some ttl \<Longrightarrow> \<exists>t \<in> set ts. title t = Some ttl"
  by (auto simp: first_title_containing_def find_Some_iff split: option.splits)







text \<open>
  C9. Every title that \<open>choose_track\<close> returns is the title of an entry of the track
  listing whose type is \<open>track\<close> or is absent, whatever the hint.
\<close>

theorem choose_track_is_track:
  assumes "choose_track data user_text = Some ttl"
  shows "\<exists>t \<in> set (case tracklist data of None \<Rightarrow> [] | Some ts \<Rightarrow> ts).
           title t = Some ttl \<and> (track_type t = None \<or> track_type t = Some ''track'')"
proof -
  from assms have "CHR ''|'' \<in> set user_text"
    by (auto simp: choose_track_def split: if_splits)
  then obtain pre rest where u: "user_text = pre @ ''|'' @ rest" and pre: "CHR ''|'' \<notin> set pre"
    using split_list_first [of "CHR ''|''" user_text] by auto
  have "\<exists>t \<in> set (track_entries data). title t = Some ttl"
  proof (cases "match_index_hint (strip rest)")
    case None
    with assms show ?thesis
      by (auto simp: u choose_track_Cons [OF pre] dest: first_title_containing_Some)
  next
    case (Some ds)
    show ?thesis
    proof (cases "1 \<le> int_of_digits ds \<and> int_of_digits ds \<le> length (track_entries data)")
      case True
      then have "track_entries data ! (int_of_digits ds - 1) \<in> set (track_entries data)"
        by (intro nth_mem) arith
      with assms Some True show ?thesis
        by (auto simp: u choose_track_Cons [OF pre])
    next
      case False
      with assms Some show ?thesis
        by (auto simp: u choose_track_Cons [OF pre] dest: first_title_containing_Some)
    qed
  qed
  then show ?thesis by (auto simp: track_entries_def)
qed

theorem choose_track_is_track_witness:
  "\<exists>t \<in> set (case tracklist moonlight of None \<Rightarrow> [] | Some ts \<Rightarrow> ts).
     title t = Some ''Moonlight Again''
     \<and> (track_type t = None \<or> track_type t = Some ''track'')"
proof -
  have "choose_track moonlight ''u | Track : 3'' = Some ''Moonlight Again''"
    by code_simp
  then show ?thesis by (rule choose_track_is_track)
qed

text \<open>
  C10. When the user text has only whitespace after its first \<open>|\<close>, and the first
  track-typed entry of the listing has a title, \<open>choose_track\<close> returns that title: the
  empty hint is a substring of every title.
\<close>

theorem empty_hint_first_track:
  assumes "CHR ''|'' \<notin> set pre"
    and "\<forall>c \<in> set ws. is_space c"
    and "track_entries data = t # ts"
    and "title t = Some ttl"
  shows "choose_track data (pre @ ''|'' @ ws) = Some ttl"
proof -
  from assms(2) have s: "strip ws = []" by (simp add: strip_Nil_iff blank_def)
  have "match_index_hint [] = None" by (simp add: match_index_hint_def imatch_def)
  moreover have "first_title_containing (lower []) (t # ts) = title t"
    by (simp add: first_title_containing_def title_contains_def lower_def)
  ultimately show ?thesis
    using assms(3,4) by (simp add: choose_track_Cons [OF assms(1)] s)
qed

theorem empty_hint_first_track_witness:
  "choose_track moonlight (''u '' @ ''|'' @ ''  '') = Some ''Intro''"
proof -
  have a: "CHR ''|'' \<notin> set ''u ''" by simp
  have b: "\<forall>c \<in> set ''  ''. is_space c" by (simp add: is_space_def)
  have c: "track_entries moonlight =
             \<lparr>title = Some ''Intro'', track_type = None\<rparr>
             # [\<lparr>title = Some ''Blue MOONLIGHT'', track_type = Some ''track''\<rparr>,
                \<lparr>title = Some ''Moonlight Again'', track_type = None\<rparr>]"
    by code_simp
  have d: "title \<lparr>title = Some ''Intro'', track_type = None\<rparr> = Some ''Intro''" by simp
  from empty_hint_first_track [OF a b c d] show ?thesis .
qed

section \<open>Properties of the URL Identifier\<close>







































end
